theory Spec2Isabelle
  imports Main
begin

section \<open>Data model\<close>

text \<open>
  The overlay window of \<^verbatim>\<open>src/normcap/gui/base_window.py\<close> works on the classes of
  \<^verbatim>\<open>normcap.models\<close>. Python integers are unbounded, so every coordinate is an
  \<open>int\<close>.
\<close>

text \<open>
  Modelled from the spec: class \<^verbatim>\<open>Rect\<close> of \<^verbatim>\<open>normcap.models\<close> is imported by
  the source but its declaration is not among the source files. The spec describes it as
  four signed integer edges (top, left, bottom, right). The field \<^verbatim>\<open>top\<close> is
  named \<open>top_edge\<close> here, since \<open>top\<close> is the greatest element of an order in HOL.
\<close>

record Rect =
  left :: int
  top_edge :: int
  right :: int
  bottom :: int

text \<open>
  Modelled from the spec: the constructor call \<^verbatim>\<open>Rect()\<close> without arguments, the
  spec's empty rectangle. All four edges are 0.
\<close>

definition Rect_empty :: Rect where
  "Rect_empty = \<lparr>left = 0, top_edge = 0, right = 0, bottom = 0\<rparr>"

text \<open>
  Modelled from the spec: the derived accessors \<^verbatim>\<open>width\<close>, \<^verbatim>\<open>height\<close> and
  \<^verbatim>\<open>geometry\<close> of \<^verbatim>\<open>Rect\<close>, whose code is not among the source files. No
  property below depends on what they compute.
\<close>

definition Rect_width :: "Rect \<Rightarrow> int" where
  "Rect_width r = right r - left r"

definition Rect_height :: "Rect \<Rightarrow> int" where
  "Rect_height r = bottom r - top_edge r"

definition Rect_geometry :: "Rect \<Rightarrow> int \<times> int \<times> int \<times> int" where
  "Rect_geometry r = (left r, top_edge r, Rect_width r, Rect_height r)"

text \<open>
  Modelled from the spec: the enumerations \<^verbatim>\<open>Platform\<close>, \<^verbatim>\<open>DisplayManager\<close> and
  \<^verbatim>\<open>CaptureMode\<close> of \<^verbatim>\<open>normcap.models\<close>, whose declarations are not among the
  source files. The source names the members \<^verbatim>\<open>LINUX\<close>, \<^verbatim>\<open>MACOS\<close>,
  \<^verbatim>\<open>WINDOWS\<close>, \<^verbatim>\<open>WAYLAND\<close>, \<^verbatim>\<open>RAW\<close> and \<^verbatim>\<open>PARSE\<close>. Python does not
  restrict what a field holds, so each type has one more constructor that stands for any
  other value, told apart by a name.
\<close>

datatype Platform = LINUX | MACOS | WINDOWS | OTHER_PLATFORM string

datatype DisplayManager = WAYLAND | X11 | OTHER_DISPLAY_MANAGER string

datatype CaptureMode = RAW | PARSE | OTHER_MODE string

text \<open>
  Modelled from the spec: \<^verbatim>\<open>ScreenInfo\<close> and \<^verbatim>\<open>SystemInfo\<close> of
  \<^verbatim>\<open>normcap.models\<close>, with the fields the source reads: the geometry of a screen,
  and the platform, the display manager and the ordered list of screens.
\<close>

record ScreenInfo =
  geometry :: Rect

record SystemInfo =
  platform :: Platform
  display_manager :: DisplayManager
  screens :: "ScreenInfo list"

text \<open>
  A Python \<^verbatim>\<open>str\<close> that may hold characters outside ASCII is a list of Unicode code
  points: the glyphs of the mode indicator are U+2630 and U+2605.
\<close>

type_synonym ustring = "nat list"

text \<open>
  The fields that \<^verbatim>\<open>BaseWindow.__init__\<close> assigns. The Qt objects
  \<^verbatim>\<open>qt_primary_color\<close>, \<^verbatim>\<open>mode_indicator_font\<close> and \<^verbatim>\<open>frame\<close> are built from
  constants and \<^verbatim>\<open>primary_color\<close> and are never assigned again; the reference
  \<^verbatim>\<open>main_window\<close> only routes signals. They appear in the effects below, not as
  fields.
\<close>

record BaseWindow =
  system_info :: SystemInfo
  screen_idx :: int
  primary_color :: string
  selection_rect :: Rect
  is_positioned :: bool
  pen_width :: int
  is_selecting :: bool
  mode_indicator :: ustring

section \<open>Errors and effects\<close>

datatype error = IndexError | NotImplementedError Platform

text \<open>How a method ends: it returns, or an exception leaves it.\<close>

datatype outcome = Returned | Raised error

text \<open>The signals of \<^verbatim>\<open>main_window.com\<close>, each with its payload.\<close>

datatype signal =
    On_quit_or_hide string
  | On_set_cursor_wait
  | On_minimize_windows
  | On_region_selected "Rect \<times> int"
  | On_window_positioned

datatype window_flag =
    FramelessWindowHint
  | BypassWindowManagerHint
  | WindowStaysOnTopHint
  | CustomizeWindowHint
  | NoDropShadowWindowHint

text \<open>The messages handed to \<^verbatim>\<open>logger.debug\<close>, by their arguments.\<close>

datatype log_message =
    Creating_window int
  | Setting_fullscreen int
  | Positioning_window int
  | Moving_window int Rect

text \<open>
  Every call that leaves the window object: a signal emitted, a call of the Qt widget, of
  the painter, of the logger, of \<^verbatim>\<open>print\<close> or of
  \<^verbatim>\<open>move_active_window_to_position_on_gnome\<close>. A method yields its calls in the order
  it makes them. \<^verbatim>\<open>SetObjectName i\<close> stands for the name \<^verbatim>\<open>window-i\<close>, and
  \<^verbatim>\<open>SetCentralWidget c\<close> for the frame that \<^verbatim>\<open>_add_central_widget\<close> builds with
  a border of colour \<^verbatim>\<open>c\<close>.
\<close>

datatype effect =
    Emit signal
  | Update
  | Logger_debug log_message
  | Print int
  | SetObjectName int
  | SetWindowTitle string
  | SetWindowIcon string
  | SetAnimated bool
  | SetEnabled bool
  | SetCentralWidget string
  | SetWindowFlags "window_flag list"
  | SetAttribute_WA_TranslucentBackground bool
  | SetStyleSheet string
  | SetFocusPolicy_StrongFocus
  | SetWindowState_WindowActive
  | Move int int
  | SetMinimumSize int int
  | SetGeometry int int int int
  | Show
  | ShowFullScreen
  | SetFocus
  | Move_active_window_to_position_on_gnome Rect
  | Painter_setPen string int
  | Painter_drawRect "int \<times> int \<times> int \<times> int"
  | Painter_setFont
  | Painter_drawText int int ustring
  | Painter_end
  | Super_changeEvent

text \<open>
  A method of the window takes the window and yields how it ended, the window as the
  method left it (also when an exception cut it short) and the calls it made.
\<close>

type_synonym result = "outcome \<times> BaseWindow \<times> effect list"

section \<open>Utility\<close>

text \<open>
  Python's \<^verbatim>\<open>xs[i]\<close>: a negative index counts from the end, an index out of range
  raises \<^verbatim>\<open>IndexError\<close> (here \<open>None\<close>).
\<close>

definition py_index :: "'a list \<Rightarrow> int \<Rightarrow> 'a option" where
  "py_index xs i =
     (if 0 \<le> i \<and> i < int (length xs) then Some (xs ! nat i)
      else if i < 0 \<and> - int (length xs) \<le> i then Some (xs ! nat (int (length xs) + i))
      else None)"

text \<open>
  \<^verbatim>\<open>_to_global_rect\<close> changes the rectangle it is given and returns it. Its only
  caller passes a deep copy, so the model takes a rectangle and yields the new one.
\<close>

definition to_global_rect :: "BaseWindow \<Rightarrow> Rect \<Rightarrow> error + Rect" where
  "to_global_rect self rect =
     (case py_index (screens (system_info self)) (screen_idx self) of
        None \<Rightarrow> Inl IndexError
      | Some screen \<Rightarrow>
          (let offset_x = left (geometry screen);
               offset_y = top_edge (geometry screen);
               rect1 = (if offset_x \<noteq> 0
                        then rect\<lparr>left := left rect + offset_x, right := right rect + offset_x\<rparr>
                        else rect);
               rect2 = (if offset_y \<noteq> 0
                        then rect1\<lparr>top_edge := top_edge rect1 + offset_y,
                                   bottom := bottom rect1 + offset_y\<rparr>
                        else rect1)
           in Inr (rect2\<lparr>left := left rect2 + pen_width self,
                         top_edge := top_edge rect2 + pen_width self,
                         right := right rect2 - pen_width self,
                         bottom := bottom rect2 - pen_width self\<rparr>)))"

definition margin_correction :: int where
  "margin_correction = 4"

definition sanatize_rect :: "Rect \<Rightarrow> Rect" where
  "sanatize_rect rect =
     (let rect1 = (if top_edge rect > bottom rect
                   then (let bottom' = top_edge rect - margin_correction;
                             top' = bottom rect + margin_correction
                         in rect\<lparr>top_edge := top', bottom := bottom'\<rparr>)
                   else rect)
      in (if left rect1 > right rect1
          then (let left' = right rect1 + margin_correction;
                    right' = left rect1 - margin_correction
                in rect1\<lparr>right := right', left := left'\<rparr>)
          else rect1))"

definition get_mode_indicator_char :: "CaptureMode \<Rightarrow> ustring" where
  "get_mode_indicator_char mode =
     (if mode = RAW then [0x2630]
      else if mode = PARSE then [0x2605]
      else [])"

section \<open>Events\<close>

text \<open>The Qt constants the handlers compare with, by their values in Qt 5.\<close>

definition Key_Escape :: int where
  "Key_Escape = 0x01000000"

definition LeftButton :: int where
  "LeftButton = 1"

definition ActivationChange :: int where
  "ActivationChange = 99"

definition paintEvent :: "BaseWindow \<Rightarrow> result" where
  "paintEvent self =
     (if \<not> is_selecting self then (Returned, self, [])
      else (Returned, self,
        [Painter_setPen (primary_color self) (pen_width self),
         Painter_drawRect (Rect_geometry (selection_rect self)),
         Painter_setFont,
         Painter_drawText
           (max (right (selection_rect self)) (left (selection_rect self)) - 18)
           (min (bottom (selection_rect self)) (top_edge (selection_rect self)) - 8)
           (mode_indicator self),
         Painter_end]))"

definition keyPressEvent :: "int \<Rightarrow> BaseWindow \<Rightarrow> result" where
  "keyPressEvent key self =
     (if key = Key_Escape then
        (if is_selecting self
         then (Returned, self\<lparr>is_selecting := False\<rparr>, [Update])
         else (Returned, self, [Emit (On_quit_or_hide ''esc button pressed'')]))
      else (Returned, self, []))"

text \<open>
  The capture mode belongs to \<^verbatim>\<open>main_window.capture\<close>; the handler reads it when the
  button goes down, so it is an argument. A position is the pair of \<^verbatim>\<open>pos().x()\<close> and
  \<^verbatim>\<open>pos().y()\<close>.
\<close>

definition mousePressEvent :: "CaptureMode \<Rightarrow> int \<Rightarrow> int \<times> int \<Rightarrow> BaseWindow \<Rightarrow> result" where
  "mousePressEvent mode button pos self =
     (if button = LeftButton then
        (Returned,
         self\<lparr>is_selecting := True,
              mode_indicator := get_mode_indicator_char mode,
              selection_rect := (selection_rect self)\<lparr>top_edge := snd pos, left := fst pos,
                                                     bottom := snd pos, right := fst pos\<rparr>\<rparr>,
         [Update])
      else (Returned, self, []))"

definition mouseMoveEvent :: "int \<times> int \<Rightarrow> BaseWindow \<Rightarrow> result" where
  "mouseMoveEvent pos self =
     (Returned,
      self\<lparr>selection_rect := (selection_rect self)\<lparr>bottom := snd pos, right := fst pos\<rparr>\<rparr>,
      [Update])"

definition mouseReleaseEvent :: "int \<Rightarrow> int \<times> int \<Rightarrow> BaseWindow \<Rightarrow> result" where
  "mouseReleaseEvent button pos self =
     (if button = LeftButton \<and> is_selecting self then
        (let self1 = self\<lparr>selection_rect :=
                            (selection_rect self)\<lparr>bottom := snd pos, right := fst pos\<rparr>,
                          is_selecting := False\<rparr>;
             emitted = [Emit On_set_cursor_wait, Emit On_minimize_windows]
         in (case to_global_rect self1 (selection_rect self1) of
               Inl e \<Rightarrow> (Raised e, self1, emitted)
             | Inr capture_rect \<Rightarrow>
                 (Returned, self1\<lparr>selection_rect := Rect_empty\<rparr>,
                  emitted @
                  [Emit (On_region_selected (sanatize_rect capture_rect, screen_idx self1)),
                   Update])))
      else (Returned, self, []))"

definition position_windows_on_wayland :: "BaseWindow \<Rightarrow> result" where
  "position_windows_on_wayland self =
     (case py_index (screens (system_info self)) (screen_idx self) of
        None \<Rightarrow> (Raised IndexError, self, [SetFocus])
      | Some screen \<Rightarrow>
          (Returned, self\<lparr>is_positioned := True\<rparr>,
           [SetFocus,
            Logger_debug (Moving_window (screen_idx self) (geometry screen)),
            Move_active_window_to_position_on_gnome (geometry screen)]))"

text \<open>
  \<^verbatim>\<open>changeEvent\<close> gets the type of the event; whether the window is the active one
  is Qt's answer to \<^verbatim>\<open>isActiveWindow()\<close>, an argument here.
\<close>

definition changeEvent :: "int \<Rightarrow> bool \<Rightarrow> BaseWindow \<Rightarrow> result" where
  "changeEvent event_type is_active self =
     (if event_type = ActivationChange
         \<and> display_manager (system_info self) = WAYLAND
         \<and> is_active
         \<and> \<not> is_positioned self
      then
        (case position_windows_on_wayland self of
           (Raised e, self1, effs) \<Rightarrow>
             (Raised e, self1,
              [Print event_type, Logger_debug (Positioning_window (screen_idx self))] @ effs)
         | (Returned, self1, effs) \<Rightarrow>
             (Returned, self1,
              [Print event_type, Logger_debug (Positioning_window (screen_idx self))] @ effs @
              [Emit On_window_positioned, Super_changeEvent]))
      else (Returned, self, [Print event_type, Super_changeEvent]))"

section \<open>Adjust UI\<close>

definition set_fullscreen_linux_wayland :: "BaseWindow \<Rightarrow> result" where
  "set_fullscreen_linux_wayland self =
     (let calls =
            [SetWindowFlags
               [FramelessWindowHint, BypassWindowManagerHint, WindowStaysOnTopHint],
             SetAttribute_WA_TranslucentBackground True,
             SetStyleSheet ''background-color:transparent'',
             SetFocusPolicy_StrongFocus,
             SetWindowState_WindowActive]
      in (case py_index (screens (system_info self)) (screen_idx self) of
            None \<Rightarrow> (Raised IndexError, self, calls)
          | Some screen \<Rightarrow>
              (Returned, self,
               calls @
               [Move (left (geometry screen)) (top_edge (geometry screen)),
                SetMinimumSize (Rect_width (geometry screen)) (Rect_height (geometry screen)),
                Show])))"

definition set_fullscreen_linux_old :: "BaseWindow \<Rightarrow> result" where
  "set_fullscreen_linux_old self =
     (let calls =
            [SetAttribute_WA_TranslucentBackground True,
             SetWindowFlags [FramelessWindowHint, CustomizeWindowHint, WindowStaysOnTopHint],
             SetStyleSheet ''background-color:transparent'']
      in (case py_index (screens (system_info self)) (screen_idx self) of
            None \<Rightarrow> (Raised IndexError, self, calls)
          | Some screen \<Rightarrow>
              (Returned, self,
               calls @
               [Move (left (geometry screen)) (top_edge (geometry screen)),
                ShowFullScreen])))"

definition set_fullscreen_macos :: "BaseWindow \<Rightarrow> result" where
  "set_fullscreen_macos self =
     (let calls =
            [SetWindowFlags
               [FramelessWindowHint, CustomizeWindowHint, WindowStaysOnTopHint,
                NoDropShadowWindowHint],
             SetAttribute_WA_TranslucentBackground True,
             SetStyleSheet ''background-color:rgba(128,128,128,0.03)'',
             SetFocusPolicy_StrongFocus]
      in (case py_index (screens (system_info self)) (screen_idx self) of
            None \<Rightarrow> (Raised IndexError, self, calls)
          | Some screen \<Rightarrow>
              (Returned, self,
               calls @
               [SetGeometry (left (geometry screen)) (top_edge (geometry screen))
                  (Rect_width (geometry screen)) (Rect_height (geometry screen))])))"

definition set_fullscreen_windows :: "BaseWindow \<Rightarrow> result" where
  "set_fullscreen_windows self =
     (let calls =
            [SetWindowFlags [FramelessWindowHint, CustomizeWindowHint, WindowStaysOnTopHint],
             SetAttribute_WA_TranslucentBackground True,
             SetStyleSheet ''background-color:rgba(0,0,0,0.01)'']
      in (case py_index (screens (system_info self)) (screen_idx self) of
            None \<Rightarrow> (Raised IndexError, self, calls)
          | Some screen \<Rightarrow>
              (Returned, self,
               calls @
               [Move (left (geometry screen)) (top_edge (geometry screen)),
                ShowFullScreen])))"

text \<open>What a method yields, after the calls made before it was entered.\<close>

definition after :: "effect list \<Rightarrow> result \<Rightarrow> result" where
  "after pre r = (case r of (out, self, effs) \<Rightarrow> (out, self, pre @ effs))"

definition set_fullscreen :: "BaseWindow \<Rightarrow> result" where
  "set_fullscreen self =
     after [Logger_debug (Setting_fullscreen (screen_idx self))]
       (if platform (system_info self) = LINUX then
          (if display_manager (system_info self) = WAYLAND
           then set_fullscreen_linux_wayland self
           else set_fullscreen_linux_wayland self)
        else if platform (system_info self) = MACOS then set_fullscreen_macos self
        else if platform (system_info self) = WINDOWS then set_fullscreen_windows self
        else (Raised (NotImplementedError (platform (system_info self))), self, []))"

definition add_central_widget :: "BaseWindow \<Rightarrow> effect list" where
  "add_central_widget self = [SetCentralWidget (primary_color self)]"

text \<open>
  The constructor: when \<^verbatim>\<open>set_fullscreen\<close> raises, so does the constructor, and no
  window comes to exist.
\<close>

definition BaseWindow_init :: "SystemInfo \<Rightarrow> int \<Rightarrow> string \<Rightarrow> result" where
  "BaseWindow_init si idx color =
     (let self = \<lparr>system_info = si, screen_idx = idx, primary_color = color,
                  selection_rect = Rect_empty, is_positioned = False, pen_width = 2,
                  is_selecting = False, mode_indicator = [0x3F]\<rparr>
      in after
           ([SetObjectName idx, SetWindowTitle ''NormCap'', SetWindowIcon ''normcap.png'',
             SetAnimated False, SetEnabled True, Logger_debug (Creating_window idx)]
            @ add_central_widget self)
           (set_fullscreen self))"

section \<open>The window as a state machine\<close>

datatype event =
    KeyPress int
  | MousePress int "int \<times> int"
  | MouseMove "int \<times> int"
  | MouseRelease int "int \<times> int"
  | Paint
  | Change int bool

text \<open>
  Qt hands each event to its handler. The capture mode is what
  \<^verbatim>\<open>main_window.capture.mode\<close> holds when the event arrives.
\<close>

fun dispatch :: "CaptureMode \<Rightarrow> event \<Rightarrow> BaseWindow \<Rightarrow> result" where
  "dispatch mode (KeyPress key) self = keyPressEvent key self"
| "dispatch mode (MousePress button pos) self = mousePressEvent mode button pos self"
| "dispatch mode (MouseMove pos) self = mouseMoveEvent pos self"
| "dispatch mode (MouseRelease button pos) self = mouseReleaseEvent button pos self"
| "dispatch mode Paint self = paintEvent self"
| "dispatch mode (Change event_type is_active) self = changeEvent event_type is_active self"

text \<open>
  The windows that can exist: those a constructor call returned, and those an event
  handler left behind, whether it returned or raised.
\<close>

inductive reachable :: "BaseWindow \<Rightarrow> bool" where
  constructed: "BaseWindow_init si idx color = (Returned, self, effs) \<Longrightarrow> reachable self"
| handled: "reachable self \<Longrightarrow> dispatch mode ev self = (out, self', effs) \<Longrightarrow> reachable self'"

text \<open>
  The two monitors of the spec's end-to-end example: the second screen lies to the right
  of the first, at left = 1920, top = 0, and is 1920 by 1080.
\<close>

definition two_screens :: SystemInfo where
  "two_screens =
     \<lparr>platform = LINUX, display_manager = X11,
      screens = [\<lparr>geometry = \<lparr>left = 0, top_edge = 0, right = 1920, bottom = 1080\<rparr>\<rparr>,
                 \<lparr>geometry = \<lparr>left = 1920, top_edge = 0, right = 3840, bottom = 1080\<rparr>\<rparr>]\<rparr>"

definition window_1 :: BaseWindow where
  "window_1 =
     \<lparr>system_info = two_screens, screen_idx = 1, primary_color = ''#FF2E88'',
      selection_rect = Rect_empty, is_positioned = False, pen_width = 2,
      is_selecting = False, mode_indicator = [0x3F]\<rparr>"

text \<open>
  The same window while the user drags on it: the primary button went down at the local
  point (100, 100) in capture mode \<^verbatim>\<open>RAW\<close>.
\<close>

definition window_1_dragging :: BaseWindow where
  "window_1_dragging =
     \<lparr>system_info = two_screens, screen_idx = 1, primary_color = ''#FF2E88'',
      selection_rect = \<lparr>left = 100, top_edge = 100, right = 100, bottom = 100\<rparr>,
      is_positioned = False, pen_width = 2,
      is_selecting = True, mode_indicator = [0x2630]\<rparr>"

section \<open>Helper lemmas\<close>

lemma py_index_two_screens_1:
  "py_index (screens two_screens) 1
     = Some \<lparr>geometry = \<lparr>left = 1920, top_edge = 0, right = 3840, bottom = 1080\<rparr>\<rparr>"
  by (simp add: py_index_def two_screens_def)

lemma platform_two_screens: "platform two_screens = LINUX"
  by (simp add: two_screens_def)

lemma init_window_1:
  "\<exists>effs. BaseWindow_init two_screens 1 ''#FF2E88'' = (Returned, window_1, effs)"
  by (simp add: BaseWindow_init_def set_fullscreen_def set_fullscreen_linux_wayland_def
      after_def window_1_def py_index_two_screens_1 platform_two_screens Let_def)

lemma reachable_window_1: "reachable window_1"
  using init_window_1 by (auto intro: reachable.constructed)

lemma to_global_rect_fields:
  "system_info a = system_info b \<Longrightarrow> screen_idx a = screen_idx b \<Longrightarrow> pen_width a = pen_width b
   \<Longrightarrow> to_global_rect a r = to_global_rect b r"
  by (simp add: to_global_rect_def split: option.splits)

lemma set_fullscreen_cases:
  "set_fullscreen self = (out, self', effs) \<Longrightarrow> self' = self"
  by (auto simp: set_fullscreen_def after_def set_fullscreen_linux_wayland_def
      set_fullscreen_macos_def set_fullscreen_windows_def Let_def split: if_splits option.splits)

lemma set_fullscreen_Returned_index:
  "set_fullscreen self = (Returned, self', effs) \<Longrightarrow>
     py_index (screens (system_info self)) (screen_idx self) \<noteq> None"
  by (auto simp: set_fullscreen_def after_def set_fullscreen_linux_wayland_def
      set_fullscreen_macos_def set_fullscreen_windows_def Let_def split: if_splits option.splits)

lemma init_invariant:
  assumes "BaseWindow_init si idx color = (Returned, self, effs)"
  shows "pen_width self = 2 \<and> py_index (screens (system_info self)) (screen_idx self) \<noteq> None"
proof -
  define w0 where "w0 = \<lparr>system_info = si, screen_idx = idx, primary_color = color,
                  selection_rect = Rect_empty, is_positioned = False, pen_width = 2,
                  is_selecting = False, mode_indicator = [0x3F]\<rparr>"
  obtain out w' e where r: "set_fullscreen w0 = (out, w', e)"
    by (cases "set_fullscreen w0") auto
  from assms r have "out = Returned" "self = w'"
    by (auto simp: BaseWindow_init_def after_def w0_def Let_def)
  moreover from r have "w' = w0" by (rule set_fullscreen_cases)
  ultimately show ?thesis
    using set_fullscreen_Returned_index[of w0 w' e] r by (simp add: w0_def)
qed

lemma dispatch_frame:
  assumes "dispatch mode ev self = (out, self', effs)"
  shows "system_info self' = system_info self \<and> screen_idx self' = screen_idx self
       \<and> pen_width self' = pen_width self \<and> primary_color self' = primary_color self"
  using assms
  by (cases ev)
     (auto simp: keyPressEvent_def mousePressEvent_def mouseMoveEvent_def mouseReleaseEvent_def
        paintEvent_def changeEvent_def position_windows_on_wayland_def Let_def
        split: if_splits option.splits sum.splits)

lemma reachable_invariant:
  "reachable self \<Longrightarrow>
     pen_width self = 2 \<and> py_index (screens (system_info self)) (screen_idx self) \<noteq> None"
proof (induction rule: reachable.induct)
  case (constructed si idx color self effs)
  then show ?case by (rule init_invariant)
next
  case (handled self mode ev out self' effs)
  from dispatch_frame[OF handled.hyps(2)] handled.IH show ?case by simp
qed

lemma window_1_fields:
  "system_info window_1 = two_screens" "screen_idx window_1 = 1" "pen_width window_1 = 2"
  "is_selecting window_1 = False" "selection_rect window_1 = Rect_empty"
  by (simp_all add: window_1_def)

lemma window_1_dragging_fields:
  "system_info window_1_dragging = two_screens" "screen_idx window_1_dragging = 1"
  "pen_width window_1_dragging = 2" "is_selecting window_1_dragging = True"
  "selection_rect window_1_dragging = \<lparr>left = 100, top_edge = 100, right = 100, bottom = 100\<rparr>"
  by (simp_all add: window_1_dragging_def)

lemma press_window_1:
  "dispatch RAW (MousePress LeftButton (100, 100)) window_1
     = (Returned, window_1_dragging, [Update])"
  by (simp add: mousePressEvent_def get_mode_indicator_char_def window_1_def
      window_1_dragging_def Rect_empty_def)

lemma reachable_window_1_dragging: "reachable window_1_dragging"
  using reachable_window_1 press_window_1 by (rule reachable.handled)

lemma sanatize_rect_ordered_unchanged:
  "top_edge r \<le> bottom r \<Longrightarrow> left r \<le> right r \<Longrightarrow> sanatize_rect r = r"
  by (simp add: sanatize_rect_def)

lemma sanatize_rect_vertical_ordered_iff:
  "(top_edge (sanatize_rect r) \<le> bottom (sanatize_rect r))
     = (top_edge r \<le> bottom r \<or> bottom r + 8 \<le> top_edge r)"
  by (auto simp: sanatize_rect_def margin_correction_def Let_def)

lemma sanatize_rect_horizontal_ordered_iff:
  "(left (sanatize_rect r) \<le> right (sanatize_rect r))
     = (left r \<le> right r \<or> right r + 8 \<le> left r)"
  by (auto simp: sanatize_rect_def margin_correction_def Let_def)

lemma screens_two_screens_platform:
  "screens (two_screens\<lparr>platform := p\<rparr>) = screens two_screens"
  by simp

section \<open>The geometry utilities\<close>

text \<open>
  Claim C1. For every rectangle, \<^verbatim>\<open>_sanatize_rect\<close> returns a rectangle with
  top \<open>\<le>\<close> bottom and left \<open>\<le>\<close> right, and a rectangle that is ordered already comes
  back unchanged. The docstring of the method promises the ordering, but the code keeps it
  only for spans that are not inverted or are inverted by at least 8 (twice the margin
  correction): an axis inverted by 1 to 7 is still inverted afterwards. The theorem runs
  the code on such a rectangle, and on the rectangle that \<^verbatim>\<open>mouseReleaseEvent\<close>
  hands over after a click without a drag at the local point (100, 100) of the second
  screen: the rectangle emitted has top 102 above bottom 98 and left 2022 right of right
  2018.
\<close>

theorem sanatize_rect_small_inverted_span:
  "sanatize_rect \<lparr>left = 0, top_edge = 5, right = 0, bottom = 3\<rparr>
     = \<lparr>left = 0, top_edge = 7, right = 0, bottom = 1\<rparr>
   \<and> \<not> top_edge (sanatize_rect \<lparr>left = 0, top_edge = 5, right = 0, bottom = 3\<rparr>)
        \<le> bottom (sanatize_rect \<lparr>left = 0, top_edge = 5, right = 0, bottom = 3\<rparr>)
   \<and> to_global_rect window_1_dragging
        \<lparr>left = 100, top_edge = 100, right = 100, bottom = 100\<rparr>
       = Inr \<lparr>left = 2022, top_edge = 102, right = 2018, bottom = 98\<rparr>
   \<and> sanatize_rect \<lparr>left = 2022, top_edge = 102, right = 2018, bottom = 98\<rparr>
       = \<lparr>left = 2022, top_edge = 102, right = 2018, bottom = 98\<rparr>
   \<and> mouseReleaseEvent LeftButton (100, 100) window_1_dragging
       = (Returned,
          window_1_dragging\<lparr>selection_rect := Rect_empty, is_selecting := False\<rparr>,
          [Emit On_set_cursor_wait, Emit On_minimize_windows,
           Emit (On_region_selected
                  (\<lparr>left = 2022, top_edge = 102, right = 2018, bottom = 98\<rparr>, 1)),
           Update])"
proof -
  have g: "to_global_rect window_1_dragging
             \<lparr>left = 100, top_edge = 100, right = 100, bottom = 100\<rparr>
           = Inr \<lparr>left = 2022, top_edge = 102, right = 2018, bottom = 98\<rparr>"
    by (simp add: to_global_rect_def py_index_two_screens_1 window_1_dragging_fields)
  have s: "sanatize_rect \<lparr>left = 2022, top_edge = 102, right = 2018, bottom = 98\<rparr>
           = \<lparr>left = 2022, top_edge = 102, right = 2018, bottom = 98\<rparr>"
    by (simp add: sanatize_rect_def margin_correction_def Let_def)
  have "to_global_rect
          (window_1_dragging
             \<lparr>selection_rect := \<lparr>left = 100, top_edge = 100, right = 100, bottom = 100\<rparr>,
              is_selecting := False\<rparr>)
          \<lparr>left = 100, top_edge = 100, right = 100, bottom = 100\<rparr>
        = Inr \<lparr>left = 2022, top_edge = 102, right = 2018, bottom = 98\<rparr>"
    using g to_global_rect_fields
            [of "window_1_dragging
                   \<lparr>selection_rect := \<lparr>left = 100, top_edge = 100, right = 100, bottom = 100\<rparr>,
                    is_selecting := False\<rparr>" window_1_dragging]
    by simp
  then have r: "mouseReleaseEvent LeftButton (100, 100) window_1_dragging
       = (Returned,
          window_1_dragging\<lparr>selection_rect := Rect_empty, is_selecting := False\<rparr>,
          [Emit On_set_cursor_wait, Emit On_minimize_windows,
           Emit (On_region_selected
                  (\<lparr>left = 2022, top_edge = 102, right = 2018, bottom = 98\<rparr>, 1)),
           Update])"
    by (simp add: mouseReleaseEvent_def window_1_dragging_fields s Let_def)
  have e: "sanatize_rect \<lparr>left = 0, top_edge = 5, right = 0, bottom = 3\<rparr>
             = \<lparr>left = 0, top_edge = 7, right = 0, bottom = 1\<rparr>"
    by (simp add: sanatize_rect_def margin_correction_def Let_def)
  show ?thesis
    by (simp only: e g s r) simp
qed

text \<open>
  Claim C3. On a window that exists, the screen lookup of \<^verbatim>\<open>_to_global_rect\<close>
  succeeds and the pen width is 2. On an axis whose screen offset is zero the method only
  shrinks: the first edge grows by 2 and the second edge falls by 2, so with both offsets
  zero the rectangle is shrunk and not moved. On an axis whose offset is not zero both
  edges are first moved by exactly that offset and then shrunk by 2 in the same way.
\<close>

theorem to_global_rect_offsets:
  assumes "reachable self"
  shows "\<exists>screen g.
      py_index (screens (system_info self)) (screen_idx self) = Some screen
    \<and> to_global_rect self rect = Inr g
    \<and> (left (geometry screen) = 0 \<longrightarrow>
         left g = left rect + 2 \<and> right g = right rect - 2)
    \<and> (top_edge (geometry screen) = 0 \<longrightarrow>
         top_edge g = top_edge rect + 2 \<and> bottom g = bottom rect - 2)
    \<and> (left (geometry screen) \<noteq> 0 \<longrightarrow>
         left g = (left rect + left (geometry screen)) + 2
       \<and> right g = (right rect + left (geometry screen)) - 2)
    \<and> (top_edge (geometry screen) \<noteq> 0 \<longrightarrow>
         top_edge g = (top_edge rect + top_edge (geometry screen)) + 2
       \<and> bottom g = (bottom rect + top_edge (geometry screen)) - 2)"
proof -
  from reachable_invariant[OF assms] obtain screen where
    pw: "pen_width self = 2" and
    ix: "py_index (screens (system_info self)) (screen_idx self) = Some screen"
    by auto
  show ?thesis
    by (simp add: to_global_rect_def ix pw Let_def)
qed

theorem to_global_rect_offsets_witness:
  "reachable window_1
   \<and> to_global_rect window_1 \<lparr>left = 100, top_edge = 100, right = 300, bottom = 50\<rparr>
       = Inr \<lparr>left = 2022, top_edge = 102, right = 2218, bottom = 48\<rparr>"
  using to_global_rect_offsets [OF reachable_window_1,
          of "\<lparr>left = 100, top_edge = 100, right = 300, bottom = 50\<rparr>"]
  by (simp add: reachable_window_1 to_global_rect_def py_index_two_screens_1 window_1_fields)

text \<open>
  Claim C4. The two corrections of \<^verbatim>\<open>_sanatize_rect\<close> do not interact. The left
  and right edges of the result are the same whatever the top and bottom edges of the
  input are, and the top and bottom edges of the result are the same whatever the left
  and right edges of the input are. So correcting an inverted vertical span leaves the
  horizontal edges as they were whenever the horizontal span needs no correction of its
  own, and the other way round.
\<close>

theorem sanatize_rect_axes_independent:
  "left (sanatize_rect (r\<lparr>top_edge := t, bottom := b\<rparr>)) = left (sanatize_rect r)
   \<and> right (sanatize_rect (r\<lparr>top_edge := t, bottom := b\<rparr>)) = right (sanatize_rect r)
   \<and> top_edge (sanatize_rect (r\<lparr>left := l, right := x\<rparr>)) = top_edge (sanatize_rect r)
   \<and> bottom (sanatize_rect (r\<lparr>left := l, right := x\<rparr>)) = bottom (sanatize_rect r)
   \<and> (left r \<le> right r \<longrightarrow>
        left (sanatize_rect r) = left r \<and> right (sanatize_rect r) = right r)
   \<and> (top_edge r \<le> bottom r \<longrightarrow>
        top_edge (sanatize_rect r) = top_edge r \<and> bottom (sanatize_rect r) = bottom r)"
  by (simp add: sanatize_rect_def Let_def)

theorem sanatize_rect_axes_independent_witness:
  "(10::int) \<le> 30
   \<and> left (sanatize_rect \<lparr>left = 10, top_edge = 50, right = 30, bottom = 20\<rparr>) = 10
   \<and> right (sanatize_rect \<lparr>left = 10, top_edge = 50, right = 30, bottom = 20\<rparr>) = 30
   \<and> top_edge (sanatize_rect \<lparr>left = 10, top_edge = 50, right = 30, bottom = 20\<rparr>) = 24
   \<and> bottom (sanatize_rect \<lparr>left = 10, top_edge = 50, right = 30, bottom = 20\<rparr>) = 46
   \<and> (20::int) \<le> 50
   \<and> top_edge (sanatize_rect \<lparr>left = 30, top_edge = 20, right = 10, bottom = 50\<rparr>) = 20
   \<and> bottom (sanatize_rect \<lparr>left = 30, top_edge = 20, right = 10, bottom = 50\<rparr>) = 50
   \<and> left (sanatize_rect \<lparr>left = 30, top_edge = 20, right = 10, bottom = 50\<rparr>) = 14
   \<and> right (sanatize_rect \<lparr>left = 30, top_edge = 20, right = 10, bottom = 50\<rparr>) = 26"
  using sanatize_rect_axes_independent
          [where r = "\<lparr>left = 10, top_edge = 50, right = 30, bottom = 20\<rparr>"
             and t = 20 and b = 50 and l = 30 and x = 10]
        sanatize_rect_axes_independent
          [where r = "\<lparr>left = 30, top_edge = 20, right = 10, bottom = 50\<rparr>"
             and t = 50 and b = 20 and l = 10 and x = 30]
  by (simp add: sanatize_rect_def margin_correction_def Let_def)

section \<open>The selection state machine\<close>

text \<open>
  Claim C2. On every window that exists and is selecting, a release of the primary button
  at (x, y) puts the bottom and right edges of the selection at the release point, clears
  \<open>is_selecting\<close>, and emits, in this order, the set-cursor-wait signal, the
  minimize-windows signal and the region-selected event. The payload of that event is the
  finalized selection rectangle sent through \<^verbatim>\<open>_to_global_rect\<close> (which does not
  raise here) and then through \<^verbatim>\<open>_sanatize_rect\<close>, paired with the screen index
  of the window. Afterwards \<open>selection_rect\<close> is the empty rectangle and a redraw is
  requested.
\<close>

theorem mouseReleaseEvent_completed_selection:
  assumes "reachable self" and "is_selecting self"
  shows "\<exists>g. to_global_rect self ((selection_rect self)\<lparr>bottom := y, right := x\<rparr>) = Inr g
     \<and> mouseReleaseEvent LeftButton (x, y) self =
         (Returned,
          self\<lparr>selection_rect := Rect_empty, is_selecting := False\<rparr>,
          [Emit On_set_cursor_wait, Emit On_minimize_windows,
           Emit (On_region_selected (sanatize_rect g, screen_idx self)), Update])"
proof -
  from reachable_invariant[OF assms(1)] obtain screen where
    ix: "py_index (screens (system_info self)) (screen_idx self) = Some screen"
    by auto
  let ?r = "(selection_rect self)\<lparr>bottom := y, right := x\<rparr>"
  let ?self1 = "self\<lparr>selection_rect := ?r, is_selecting := False\<rparr>"
  obtain g where g: "to_global_rect self ?r = Inr g"
    by (simp add: to_global_rect_def ix Let_def)
  have "to_global_rect ?self1 ?r = to_global_rect self ?r"
    by (rule to_global_rect_fields) simp_all
  with g have g1: "to_global_rect ?self1 (selection_rect ?self1) = Inr g" by simp
  have "mouseReleaseEvent LeftButton (x, y) self =
         (Returned,
          self\<lparr>selection_rect := Rect_empty, is_selecting := False\<rparr>,
          [Emit On_set_cursor_wait, Emit On_minimize_windows,
           Emit (On_region_selected (sanatize_rect g, screen_idx self)), Update])"
    using assms(2) g1 by (simp add: mouseReleaseEvent_def Let_def)
  with g show ?thesis by blast
qed

theorem mouseReleaseEvent_completed_selection_witness:
  "reachable window_1_dragging \<and> is_selecting window_1_dragging
   \<and> mouseReleaseEvent LeftButton (300, 50) window_1_dragging =
       (Returned,
        window_1_dragging\<lparr>selection_rect := Rect_empty, is_selecting := False\<rparr>,
        [Emit On_set_cursor_wait, Emit On_minimize_windows,
         Emit (On_region_selected
                (\<lparr>left = 2022, top_edge = 52, right = 2218, bottom = 98\<rparr>, 1)),
         Update])"
proof -
  have sel: "is_selecting window_1_dragging"
    by (simp add: window_1_dragging_fields)
  have g: "to_global_rect window_1_dragging
             ((selection_rect window_1_dragging)\<lparr>bottom := 50, right := 300\<rparr>)
           = Inr \<lparr>left = 2022, top_edge = 102, right = 2218, bottom = 48\<rparr>"
    by (simp add: to_global_rect_def py_index_two_screens_1 window_1_dragging_fields)
  have s: "sanatize_rect \<lparr>left = 2022, top_edge = 102, right = 2218, bottom = 48\<rparr>
           = \<lparr>left = 2022, top_edge = 52, right = 2218, bottom = 98\<rparr>"
    by (simp add: sanatize_rect_def margin_correction_def Let_def)
  from mouseReleaseEvent_completed_selection
         [OF reachable_window_1_dragging sel, where x = 300 and y = 50]
  have "mouseReleaseEvent LeftButton (300, 50) window_1_dragging =
       (Returned,
        window_1_dragging\<lparr>selection_rect := Rect_empty, is_selecting := False\<rparr>,
        [Emit On_set_cursor_wait, Emit On_minimize_windows,
         Emit (On_region_selected
                (\<lparr>left = 2022, top_edge = 52, right = 2218, bottom = 98\<rparr>,
                 screen_idx window_1_dragging)),
         Update])"
    by (auto simp: g s)
  then show ?thesis
    by (simp add: reachable_window_1_dragging sel window_1_dragging_fields)
qed

text \<open>
  Claim C5. A window holds one flag and one selection rectangle, so at most one selection
  is in progress: a press of the primary button while selecting opens no second selection,
  it leaves the flag set and restarts the one rectangle at the press point. Whatever the
  event and the window, \<open>is_selecting\<close> goes from false to true only on a press of the
  primary button, and from true to false only on a release of the primary button or on
  the Escape key. This holds also for a handler that raises, since the window it leaves
  behind is part of the result.
\<close>

theorem is_selecting_transitions:
  assumes "dispatch mode ev self = (out, self', effs)"
  shows "(\<not> is_selecting self \<and> is_selecting self' \<longrightarrow>
            (\<exists>pos. ev = MousePress LeftButton pos))
       \<and> (is_selecting self \<and> \<not> is_selecting self' \<longrightarrow>
            (\<exists>pos. ev = MouseRelease LeftButton pos) \<or> ev = KeyPress Key_Escape)
       \<and> (\<forall>pos. is_selecting self \<and> ev = MousePress LeftButton pos \<longrightarrow>
            is_selecting self'
          \<and> selection_rect self' =
              \<lparr>left = fst pos, top_edge = snd pos, right = fst pos, bottom = snd pos\<rparr>)"
  using assms
  by (cases ev)
     (auto simp: keyPressEvent_def mousePressEvent_def mouseMoveEvent_def mouseReleaseEvent_def
        paintEvent_def changeEvent_def position_windows_on_wayland_def Let_def
        split: if_splits option.splits sum.splits)

theorem is_selecting_transitions_witness:
  "dispatch RAW (MousePress LeftButton (100, 100)) window_1
     = (Returned, window_1_dragging, [Update])
   \<and> \<not> is_selecting window_1 \<and> is_selecting window_1_dragging
   \<and> dispatch RAW (KeyPress Key_Escape) window_1_dragging
     = (Returned, window_1_dragging\<lparr>is_selecting := False\<rparr>, [Update])
   \<and> \<not> is_selecting (window_1_dragging\<lparr>is_selecting := False\<rparr>)
   \<and> dispatch PARSE (MousePress LeftButton (7, 9)) window_1_dragging
     = (Returned,
        window_1_dragging
          \<lparr>selection_rect := \<lparr>left = 7, top_edge = 9, right = 7, bottom = 9\<rparr>,
           mode_indicator := [0x2605]\<rparr>,
        [Update])"
proof -
  have a: "dispatch RAW (MousePress LeftButton (100, 100)) window_1
             = (Returned, window_1_dragging, [Update])"
    by (rule press_window_1)
  have b: "dispatch RAW (KeyPress Key_Escape) window_1_dragging
             = (Returned, window_1_dragging\<lparr>is_selecting := False\<rparr>, [Update])"
    by (simp add: keyPressEvent_def window_1_dragging_fields)
  have c: "dispatch PARSE (MousePress LeftButton (7, 9)) window_1_dragging
     = (Returned,
        window_1_dragging
          \<lparr>selection_rect := \<lparr>left = 7, top_edge = 9, right = 7, bottom = 9\<rparr>,
           mode_indicator := [0x2605]\<rparr>,
        [Update])"
    by (simp add: mousePressEvent_def get_mode_indicator_char_def window_1_dragging_def)
  show ?thesis
    using is_selecting_transitions [OF a] is_selecting_transitions [OF b]
      is_selecting_transitions [OF c] a b c
    by (simp add: window_1_fields window_1_dragging_fields)
qed

text \<open>
  Claim C6. The Escape key on a window that is selecting clears \<open>is_selecting\<close> and
  only asks for a redraw: no signal at all is emitted, so neither region-selected nor
  quit-or-hide, set-cursor-wait or minimize-windows. The release of the button that
  follows such an abort finds the flag cleared, emits nothing and changes nothing.
\<close>

theorem keyPressEvent_escape_while_selecting:
  assumes "is_selecting self"
  shows "dispatch mode (KeyPress Key_Escape) self
           = (Returned, self\<lparr>is_selecting := False\<rparr>, [Update])
       \<and> (\<forall>s. Emit s \<notin> set (snd (snd (dispatch mode (KeyPress Key_Escape) self))))
       \<and> dispatch mode' (MouseRelease button pos) (self\<lparr>is_selecting := False\<rparr>)
           = (Returned, self\<lparr>is_selecting := False\<rparr>, [])"
  using assms by (simp add: keyPressEvent_def mouseReleaseEvent_def)

theorem keyPressEvent_escape_while_selecting_witness:
  "is_selecting window_1_dragging
   \<and> keyPressEvent Key_Escape window_1_dragging
       = (Returned, window_1_dragging\<lparr>is_selecting := False\<rparr>, [Update])
   \<and> mouseReleaseEvent LeftButton (300, 50) (window_1_dragging\<lparr>is_selecting := False\<rparr>)
       = (Returned, window_1_dragging\<lparr>is_selecting := False\<rparr>, [])"
proof -
  have sel: "is_selecting window_1_dragging"
    by (simp add: window_1_dragging_fields)
  from keyPressEvent_escape_while_selecting
         [OF sel, where mode = RAW and mode' = RAW and button = LeftButton and pos = "(300, 50)"]
  show ?thesis
    by (simp add: sel)
qed

text \<open>
  Claim C8. A press of the primary button sets \<open>is_selecting\<close> and computes the mode
  indicator from the capture mode read at that moment: the glyph U+2630 (trigram for
  heaven) for \<^verbatim>\<open>RAW\<close>, the glyph U+2605 (black star) for \<^verbatim>\<open>PARSE\<close>, and the
  empty string for any other mode.
\<close>

theorem mousePressEvent_mode_indicator:
  "mode_indicator (fst (snd (mousePressEvent RAW LeftButton pos self))) = [0x2630]
   \<and> mode_indicator (fst (snd (mousePressEvent PARSE LeftButton pos self))) = [0x2605]
   \<and> mode_indicator (fst (snd (mousePressEvent (OTHER_MODE name) LeftButton pos self))) = []
   \<and> is_selecting (fst (snd (mousePressEvent mode LeftButton pos self)))"
  by (simp add: mousePressEvent_def get_mode_indicator_char_def)

text \<open>
  Claim C9. \<^verbatim>\<open>mouseMoveEvent\<close> does not look at \<open>is_selecting\<close>. Whatever the
  window, a pointer move to (x, y) writes y to the bottom edge and x to the right edge of
  \<open>selection_rect\<close> and asks for a redraw; the top and left edges, \<open>is_selecting\<close> and
  every other field stay as they were. So a move on an idle window whose bottom or right
  edge differs from the pointer position does change \<open>selection_rect\<close>.
\<close>

theorem mouseMoveEvent_frame:
  "dispatch mode (MouseMove (x, y)) self =
     (Returned,
      self\<lparr>selection_rect := (selection_rect self)\<lparr>bottom := y, right := x\<rparr>\<rparr>,
      [Update])
   \<and> bottom (selection_rect (fst (snd (dispatch mode (MouseMove (x, y)) self)))) = y
   \<and> right (selection_rect (fst (snd (dispatch mode (MouseMove (x, y)) self)))) = x
   \<and> top_edge (selection_rect (fst (snd (dispatch mode (MouseMove (x, y)) self))))
       = top_edge (selection_rect self)
   \<and> left (selection_rect (fst (snd (dispatch mode (MouseMove (x, y)) self))))
       = left (selection_rect self)
   \<and> is_selecting (fst (snd (dispatch mode (MouseMove (x, y)) self))) = is_selecting self
   \<and> (\<not> is_selecting self
        \<and> (bottom (selection_rect self) \<noteq> y \<or> right (selection_rect self) \<noteq> x)
        \<longrightarrow> selection_rect (fst (snd (dispatch mode (MouseMove (x, y)) self)))
              \<noteq> selection_rect self)"
proof -
  have neq: "(selection_rect self)\<lparr>bottom := y, right := x\<rparr> \<noteq> selection_rect self"
    if "bottom (selection_rect self) \<noteq> y \<or> right (selection_rect self) \<noteq> x"
  proof
    assume "(selection_rect self)\<lparr>bottom := y, right := x\<rparr> = selection_rect self"
    then have "bottom ((selection_rect self)\<lparr>bottom := y, right := x\<rparr>)
                 = bottom (selection_rect self)"
      and "right ((selection_rect self)\<lparr>bottom := y, right := x\<rparr>)
                 = right (selection_rect self)"
      by simp_all
    with that show False by simp
  qed
  then show ?thesis
    by (simp add: mouseMoveEvent_def)
qed

theorem mouseMoveEvent_frame_witness:
  "\<not> is_selecting window_1
   \<and> selection_rect window_1 = \<lparr>left = 0, top_edge = 0, right = 0, bottom = 0\<rparr>
   \<and> selection_rect (fst (snd (dispatch RAW (MouseMove (300, 50)) window_1)))
       = \<lparr>left = 0, top_edge = 0, right = 300, bottom = 50\<rparr>"
  using mouseMoveEvent_frame [where mode = RAW and x = 300 and y = 50 and self = window_1]
  by (simp add: window_1_fields Rect_empty_def)

section \<open>The platform fullscreen strategy\<close>

text \<open>
  Claim C7. For a platform that is none of Linux, macOS and Windows,
  \<^verbatim>\<open>set_fullscreen\<close> raises the unsupported-platform error
  (\<^verbatim>\<open>NotImplementedError\<close>) after its log call and before any call of the window:
  the window is left as it was and nothing is placed, so no platform falls through
  silently. On the three supported platforms it never raises that error, and, the screen
  index being one of the list of screens as the caller has to ensure, it does not raise
  at all: it returns.
\<close>

theorem set_fullscreen_platforms:
  "(platform (system_info self) \<noteq> LINUX \<and> platform (system_info self) \<noteq> MACOS
      \<and> platform (system_info self) \<noteq> WINDOWS \<longrightarrow>
       set_fullscreen self =
         (Raised (NotImplementedError (platform (system_info self))), self,
          [Logger_debug (Setting_fullscreen (screen_idx self))]))
   \<and> (platform (system_info self) = LINUX \<or> platform (system_info self) = MACOS
      \<or> platform (system_info self) = WINDOWS \<longrightarrow>
       fst (set_fullscreen self) \<noteq> Raised (NotImplementedError p)
     \<and> (py_index (screens (system_info self)) (screen_idx self) \<noteq> None \<longrightarrow>
          fst (set_fullscreen self) = Returned))"
  by (auto simp: set_fullscreen_def after_def set_fullscreen_linux_wayland_def
      set_fullscreen_macos_def set_fullscreen_windows_def Let_def split: option.splits)

theorem set_fullscreen_platforms_witness:
  "set_fullscreen (window_1\<lparr>system_info := two_screens\<lparr>platform := OTHER_PLATFORM ''BSD''\<rparr>\<rparr>)
     = (Raised (NotImplementedError (OTHER_PLATFORM ''BSD'')),
        window_1\<lparr>system_info := two_screens\<lparr>platform := OTHER_PLATFORM ''BSD''\<rparr>\<rparr>,
        [Logger_debug (Setting_fullscreen 1)])
   \<and> platform (system_info window_1) = LINUX
   \<and> py_index (screens (system_info window_1)) (screen_idx window_1) \<noteq> None
   \<and> fst (set_fullscreen window_1) = Returned
   \<and> fst (set_fullscreen (window_1\<lparr>system_info := two_screens\<lparr>platform := MACOS\<rparr>\<rparr>))
       = Returned
   \<and> fst (set_fullscreen (window_1\<lparr>system_info := two_screens\<lparr>platform := WINDOWS\<rparr>\<rparr>))
       = Returned"
  using set_fullscreen_platforms
          [where self = "window_1\<lparr>system_info := two_screens\<lparr>platform := OTHER_PLATFORM ''BSD''\<rparr>\<rparr>"]
        set_fullscreen_platforms [where self = window_1]
        set_fullscreen_platforms
          [where self = "window_1\<lparr>system_info := two_screens\<lparr>platform := MACOS\<rparr>\<rparr>"]
        set_fullscreen_platforms
          [where self = "window_1\<lparr>system_info := two_screens\<lparr>platform := WINDOWS\<rparr>\<rparr>"]
  by (simp add: window_1_fields platform_two_screens py_index_two_screens_1
      screens_two_screens_platform)

text \<open>
  Claim C10. On Linux, \<^verbatim>\<open>set_fullscreen\<close> runs \<^verbatim>\<open>_set_fullscreen_linux_wayland\<close>
  after its log call, whatever the display manager is: the outcome and the calls made on a
  window under any display manager are those made on the same window under Wayland.
\<close>

theorem set_fullscreen_linux_same_procedure:
  assumes "platform (system_info self) = LINUX"
  shows "set_fullscreen self =
           after [Logger_debug (Setting_fullscreen (screen_idx self))]
             (set_fullscreen_linux_wayland self)
       \<and> fst (set_fullscreen (self\<lparr>system_info := (system_info self)\<lparr>display_manager := dm\<rparr>\<rparr>))
           = fst (set_fullscreen
                   (self\<lparr>system_info := (system_info self)\<lparr>display_manager := WAYLAND\<rparr>\<rparr>))
       \<and> snd (snd (set_fullscreen
                     (self\<lparr>system_info := (system_info self)\<lparr>display_manager := dm\<rparr>\<rparr>)))
           = snd (snd (set_fullscreen
                   (self\<lparr>system_info := (system_info self)\<lparr>display_manager := WAYLAND\<rparr>\<rparr>)))"
  using assms
  by (simp add: set_fullscreen_def after_def set_fullscreen_linux_wayland_def Let_def
      split: option.splits)

theorem set_fullscreen_linux_same_procedure_witness:
  "platform (system_info window_1) = LINUX
   \<and> display_manager (system_info window_1) = X11
   \<and> set_fullscreen window_1 =
       (Returned, window_1,
        [Logger_debug (Setting_fullscreen 1),
         SetWindowFlags [FramelessWindowHint, BypassWindowManagerHint, WindowStaysOnTopHint],
         SetAttribute_WA_TranslucentBackground True,
         SetStyleSheet ''background-color:transparent'',
         SetFocusPolicy_StrongFocus,
         SetWindowState_WindowActive,
         Move 1920 0,
         SetMinimumSize 1920 1080,
         Show])"
proof -
  have p: "platform (system_info window_1) = LINUX"
    by (simp add: window_1_fields platform_two_screens)
  have d: "display_manager (system_info window_1) = X11"
    by (simp add: window_1_fields two_screens_def)
  have e: "after [Logger_debug (Setting_fullscreen (screen_idx window_1))]
             (set_fullscreen_linux_wayland window_1) =
       (Returned, window_1,
        [Logger_debug (Setting_fullscreen 1),
         SetWindowFlags [FramelessWindowHint, BypassWindowManagerHint, WindowStaysOnTopHint],
         SetAttribute_WA_TranslucentBackground True,
         SetStyleSheet ''background-color:transparent'',
         SetFocusPolicy_StrongFocus,
         SetWindowState_WindowActive,
         Move 1920 0,
         SetMinimumSize 1920 1080,
         Show])"
    by (simp add: after_def set_fullscreen_linux_wayland_def window_1_fields
        py_index_two_screens_1 Rect_width_def Rect_height_def)
  from set_fullscreen_linux_same_procedure [OF p, where dm = X11]
  have "set_fullscreen window_1 =
           after [Logger_debug (Setting_fullscreen (screen_idx window_1))]
             (set_fullscreen_linux_wayland window_1)"
    by simp
  with e p d show ?thesis
    by simp
qed

end
